theory Spec2Isabelle
  imports Main "HOL-Library.Monad_Syntax" "HOL-Library.Sublist"
begin

section \<open>Python values\<close>

text \<open>
  The recording provider answers with JSON, which \<^verbatim>\<open>response.json()\<close> turns into
  Python values. Numbers are kept as integers (no claim reads a float); Python's
  \<^verbatim>\<open>None\<close> is \<open>JNull\<close>. A dictionary is an association list with distinct keys.
\<close>

datatype json =
    JNull
  | JBool bool
  | JNum int
  | JStr string
  | JList "json list"
  | JDict "(string \<times> json) list"

text \<open>Python truthiness, as used by \<^verbatim>\<open>if x:\<close>, \<^verbatim>\<open>not x\<close> and \<^verbatim>\<open>x or y\<close>.\<close>

fun truthy :: "json \<Rightarrow> bool" where
  "truthy JNull = False"
| "truthy (JBool b) = b"
| "truthy (JNum n) = (n \<noteq> 0)"
| "truthy (JStr s) = (s \<noteq> [])"
| "truthy (JList xs) = (xs \<noteq> [])"
| "truthy (JDict kvs) = (kvs \<noteq> [])"

definition py_or :: "json \<Rightarrow> json \<Rightarrow> json" where
  "py_or a b = (if truthy a then a else b)"

text \<open>
  Operations that can raise return \<open>None\<close> for the exception. Every caller below sits
  in a \<^verbatim>\<open>try: ... except Exception\<close>, which treats all exceptions alike.

  \<open>dict_get x k d\<close> is \<^verbatim>\<open>x.get(k, d)\<close>: only a dictionary has \<^verbatim>\<open>.get\<close>
  (AttributeError otherwise).
\<close>

fun dict_get :: "json \<Rightarrow> string \<Rightarrow> json \<Rightarrow> json option" where
  "dict_get (JDict kvs) k d = Some (case map_of kvs k of None \<Rightarrow> d | Some v \<Rightarrow> v)"
| "dict_get _ k d = None"

text \<open>\<open>py_first x\<close> is \<^verbatim>\<open>x[0]\<close> and \<open>py_last x\<close> is \<^verbatim>\<open>x[-1]\<close>: IndexError on an
  empty sequence, KeyError on a dictionary (its keys are strings), TypeError on the rest.\<close>

fun py_first :: "json \<Rightarrow> json option" where
  "py_first (JList xs) = (case xs of [] \<Rightarrow> None | y # ys \<Rightarrow> Some y)"
| "py_first (JStr s) = (case s of [] \<Rightarrow> None | c # cs \<Rightarrow> Some (JStr [c]))"
| "py_first _ = None"

fun py_last :: "json \<Rightarrow> json option" where
  "py_last (JList xs) = (if xs = [] then None else Some (last xs))"
| "py_last (JStr s) = (if s = [] then None else Some (JStr [last s]))"
| "py_last _ = None"

text \<open>\<open>py_contains k x\<close> is \<^verbatim>\<open>k in x\<close> for a string \<open>k\<close>: key membership in a
  dictionary, element membership in a list, substring test in a string, TypeError on
  anything else.\<close>

fun py_contains :: "string \<Rightarrow> json \<Rightarrow> bool option" where
  "py_contains k (JDict kvs) = Some (k \<in> set (map fst kvs))"
| "py_contains k (JList xs) = Some (JStr k \<in> set xs)"
| "py_contains k (JStr s) = Some (sublist k s)"
| "py_contains k _ = None"

text \<open>\<open>py_item x k\<close> is \<^verbatim>\<open>x[k]\<close> for a string key \<open>k\<close>: KeyError when the key is
  missing, TypeError when \<open>x\<close> is not a dictionary.\<close>

fun py_item :: "json \<Rightarrow> string \<Rightarrow> json option" where
  "py_item (JDict kvs) k = map_of kvs k"
| "py_item _ k = None"

fun is_dict :: "json \<Rightarrow> bool" where
  "is_dict (JDict kvs) = True"
| "is_dict _ = False"

fun is_str :: "json \<Rightarrow> bool" where
  "is_str (JStr s) = True"
| "is_str _ = False"

section \<open>Recording job client (recall\_service.py)\<close>

text \<open>
  The client object: \<open>bot_id\<close> and \<open>bot_data\<close> start as \<^verbatim>\<open>None\<close>. Methods that
  assign a field return the updated object. The provider is a function from the
  requested URL to the decoded body, \<open>None\<close> when \<^verbatim>\<open>requests.get\<close>,
  \<^verbatim>\<open>raise_for_status\<close> or \<^verbatim>\<open>response.json()\<close> raises.
\<close>

record RecallAIBot =
  api_key :: string
  base_url :: string
  bot_id :: "string option"
  bot_data :: "json option"

type_synonym provider = "string \<Rightarrow> json option"

datatype 'a result = Success 'a | Failure string

text \<open>\<^verbatim>\<open>bot_id = bot_id or self.bot_id\<close> followed by \<^verbatim>\<open>if not bot_id\<close>: the result is
  the identifier in use, \<open>None\<close> when both are \<^verbatim>\<open>None\<close> or empty.\<close>

definition resolve_bot_id :: "string option \<Rightarrow> RecallAIBot \<Rightarrow> string option" where
  "resolve_bot_id arg self =
     (let chosen = (if arg \<noteq> None \<and> arg \<noteq> Some [] then arg else bot_id self)
      in if chosen = Some [] then None else chosen)"

definition bot_url :: "RecallAIBot \<Rightarrow> string \<Rightarrow> string" where
  "bot_url self b = base_url self @ ''/bot/'' @ b"

text \<open>The dictionary \<open>get_bot_status\<close> returns on success. Its \<^verbatim>\<open>meeting_url\<close>,
  \<^verbatim>\<open>bot_name\<close> and \<^verbatim>\<open>created_at\<close> entries are left out: they are built with
  \<^verbatim>\<open>.get\<close> on \<open>bot_data\<close> (a dictionary at that point) and string formatting, which
  do not raise, and nothing reads them.\<close>

record status_info =
  si_bot_id :: string
  si_status :: json
  si_status_changes :: json
  si_data :: json

definition get_bot_status :: "RecallAIBot \<Rightarrow> provider \<Rightarrow> string option \<Rightarrow> status_info result" where
  "get_bot_status self http arg =
     (case resolve_bot_id arg self of
        None \<Rightarrow> Failure ''No bot_id provided and no current bot available''
      | Some b \<Rightarrow>
          (case do {
                  data \<leftarrow> http (bot_url self b);
                  status_changes \<leftarrow> dict_get data ''status_changes'' (JList []);
                  current_status \<leftarrow>
                    (if truthy status_changes then do {
                       newest \<leftarrow> py_last status_changes;
                       dict_get newest ''code'' (JStr ''unknown'')
                     } else do {
                       recordings \<leftarrow> dict_get data ''recordings'' (JList []);
                       Some (if truthy recordings then JStr ''done'' else JStr ''waiting_to_join'')
                     });
                  Some \<lparr>si_bot_id = b, si_status = current_status,
                        si_status_changes = status_changes, si_data = data\<rparr>
                } of
             None \<Rightarrow> Failure ''Bot status error''
           | Some r \<Rightarrow> Success r))"

text \<open>\<open>get_bot_data\<close> returns the dictionary and the client, whose cache it may have
  filled. The cache test \<^verbatim>\<open>if self.bot_data and not force_refresh\<close> does not look at
  \<open>bot_id\<close>.\<close>

definition get_bot_data ::
  "RecallAIBot \<Rightarrow> provider \<Rightarrow> string option \<Rightarrow> bool \<Rightarrow> json result \<times> RecallAIBot" where
  "get_bot_data self http arg force_refresh =
     (case resolve_bot_id arg self of
        None \<Rightarrow> (Failure ''No bot_id provided and no current bot available'', self)
      | Some b \<Rightarrow>
          (case bot_data self of
             Some cached \<Rightarrow>
               if truthy cached \<and> \<not> force_refresh then (Success cached, self)
               else (case http (bot_url self b) of
                       None \<Rightarrow> (Failure ''Bot data error'', self)
                     | Some fresh \<Rightarrow> (Success fresh, self\<lparr>bot_data := Some fresh\<rparr>))
           | None \<Rightarrow>
               (case http (bot_url self b) of
                  None \<Rightarrow> (Failure ''Bot data error'', self)
                | Some fresh \<Rightarrow> (Success fresh, self\<lparr>bot_data := Some fresh\<rparr>))))"

text \<open>\<open>extract_download_urls\<close>: the pair (video URL, transcript URL) of the first
  recording; \<open>JNull\<close> is Python's \<^verbatim>\<open>None\<close>. It has no handler of its own, so
  \<open>None\<close> (an exception) reaches the caller.\<close>

definition shortcut_download_url :: "json \<Rightarrow> string \<Rightarrow> json option" where
  "shortcut_download_url media_shortcuts k = do {
     present \<leftarrow> py_contains k media_shortcuts;
     if present then do {
       entry \<leftarrow> py_item media_shortcuts k;
       entry_data \<leftarrow> dict_get entry ''data'' (JDict []);
       dict_get entry_data ''download_url'' JNull
     } else Some JNull
   }"

definition extract_download_urls :: "json \<Rightarrow> (json \<times> json) option" where
  "extract_download_urls data = do {
     recordings \<leftarrow> dict_get data ''recordings'' (JList []);
     if \<not> truthy recordings then Some (JNull, JNull)
     else do {
       recording \<leftarrow> py_first recordings;
       media_shortcuts \<leftarrow> dict_get recording ''media_shortcuts'' (JDict []);
       video_url \<leftarrow> shortcut_download_url media_shortcuts ''video_mixed'';
       transcript_url \<leftarrow> shortcut_download_url media_shortcuts ''transcript'';
       Some (video_url, transcript_url)
     }
   }"

record download_info =
  di_bot_id :: string
  video_url :: json
  audio_url :: json
  transcript_url :: json
  chat_messages_url :: json
  di_status :: json
  di_data :: json

definition get_download_urls ::
  "RecallAIBot \<Rightarrow> provider \<Rightarrow> string option \<Rightarrow> download_info result \<times> RecallAIBot" where
  "get_download_urls self http arg =
     (case resolve_bot_id arg self of
        None \<Rightarrow> (Failure ''No bot_id provided and no current bot available'', self)
      | Some b \<Rightarrow>
          (case get_bot_data self http (Some b) True of
             (Failure e, self') \<Rightarrow> (Failure e, self')
           | (Success data, self') \<Rightarrow>
               (case do {
                       (video, transcript) \<leftarrow> extract_download_urls data;
                       status_changes \<leftarrow> dict_get data ''status_changes'' (JList []);
                       current_status \<leftarrow>
                         (if truthy status_changes then do {
                            newest \<leftarrow> py_last status_changes;
                            dict_get newest ''code'' (JStr ''unknown'')
                          } else Some (JStr ''unknown''));
                       Some \<lparr>di_bot_id = b, video_url = video, audio_url = video,
                             transcript_url = transcript, chat_messages_url = JNull,
                             di_status = current_status, di_data = data\<rparr>
                     } of
                  None \<Rightarrow> (Failure ''Download URLs error'', self')
                | Some r \<Rightarrow> (Success r, self'))))"


subsection \<open>Sample data\<close>

definition demo_bot :: RecallAIBot where
  "demo_bot = \<lparr>api_key = ''key'', base_url = ''https://recall'', bot_id = None, bot_data = None\<rparr>"

text \<open>A provider that knows the jobs of a table of URLs and fails on any other request.\<close>

definition url_table :: "(string \<times> json) list \<Rightarrow> provider" where
  "url_table jobs = map_of jobs"

text \<open>A job that reports no history but already holds a recording (spec, Scenario B).\<close>

definition instant_job :: json where
  "instant_job = JDict [(''status_changes'', JList []), (''recordings'', JList [JDict []])]"

text \<open>A job that the bot has joined and is recording.\<close>

definition joined_job :: json where
  "joined_job = JDict
     [(''status_changes'', JList [JDict [(''code'', JStr ''joining_call'')],
                                  JDict [(''code'', JStr ''in_call_recording'')]]),
      (''recordings'', JList [])]"

text \<open>A finished job with a video and a transcript shortcut.\<close>

definition recorded_job :: json where
  "recorded_job = JDict
     [(''status_changes'', JList [JDict [(''code'', JStr ''joining_call'')],
                                  JDict [(''code'', JStr ''done'')]]),
      (''recordings'', JList [JDict [(''media_shortcuts'', JDict
          [(''video_mixed'', JDict [(''data'', JDict [(''download_url'', JStr ''https://v'')])]),
           (''transcript'', JDict [(''data'', JDict [(''download_url'', JStr ''https://t'')])])])]])]"

subsection \<open>The status rule in the spec's words\<close>

text \<open>
  The spec derives the status from the job's ordered history of state-change events and
  from its recordings. \<open>list_field\<close> reads such a list from the job data: a missing key
  is the empty list, as the code's \<^verbatim>\<open>.get(key, [])\<close> has it. \<open>entry_code\<close> is the
  code of one history entry; the code writes \<open>unknown\<close> for an entry without one.
\<close>

definition list_field :: "(string \<times> json) list \<Rightarrow> string \<Rightarrow> json list option" where
  "list_field kvs k =
     (case map_of kvs k of None \<Rightarrow> Some [] | Some (JList xs) \<Rightarrow> Some xs | Some _ \<Rightarrow> None)"

definition entry_code :: "json \<Rightarrow> json" where
  "entry_code e =
     (case e of
        JDict kvs \<Rightarrow> (case map_of kvs ''code'' of None \<Rightarrow> JStr ''unknown'' | Some c \<Rightarrow> c)
      | _ \<Rightarrow> JNull)"

definition poll_status_spec :: "json list \<Rightarrow> json list \<Rightarrow> json" where
  "poll_status_spec history recordings =
     (if history \<noteq> [] then entry_code (last history)
      else if recordings \<noteq> [] then JStr ''done'' else JStr ''waiting_to_join'')"


section \<open>Meeting session orchestrator (meeting\_intelligence.py)\<close>

subsection \<open>State\<close>

text \<open>
  A session is the dictionary \<open>meeting_data\<close> that \<open>start_meeting_recording\<close> builds:
  \<open>status\<close> starts as \<open>recording\<close>, \<open>processed\<close> as false, and \<open>processed_at\<close> is
  absent. \<open>user_id\<close> defaults to \<^verbatim>\<open>None\<close>. Times are clock readings.
\<close>

record meeting =
  meeting_id :: string
  meeting_bot_id :: string
  meeting_url :: string
  client_id :: string
  sub_client_id :: "string option"
  user_id :: "string option"
  attendees :: "string list"
  meeting_title :: string
  status :: json
  started_at :: nat
  processed :: bool
  processed_at :: "nat option"

text \<open>The row that \<open>create_output\<close> inserts into the \<open>outputs\<close> table. An entry
  equal to \<^verbatim>\<open>None\<close> is dropped from the payload, so the sub-client is optional;
  \<open>updated_at\<close> is the same clock reading as \<open>created_at\<close> and is not kept apart.\<close>

record output_row =
  out_title :: string
  out_content :: string
  out_type :: string
  out_prompt :: string
  out_client_id :: string
  out_sub_client_id :: "string option"
  out_user_id :: string
  out_meeting_id :: string
  out_created_at :: nat

text \<open>
  The service object with the collaborators it mutates: the global recording client,
  the session registry, the processing queue, the processing tasks handed to
  \<^verbatim>\<open>asyncio.create_task\<close> (by meeting id), and the \<open>outputs\<close> table.
\<close>

record world =
  recall_service :: RecallAIBot
  active_meetings :: "string \<rightharpoonup> meeting"
  processing_queue :: "string list"
  tasks :: "string list"
  outputs :: "output_row list"

text \<open>The three keys of the \<open>ai_results\<close> dictionary.\<close>

datatype kind = Summary | ActionItems | FollowUpEmail

fun kind_name :: "kind \<Rightarrow> string" where
  "kind_name Summary = ''summary''"
| "kind_name ActionItems = ''action_items''"
| "kind_name FollowUpEmail = ''follow_up_email''"

text \<open>
  A prompt is an f-string over the title, the attendees, the client context and the
  transcript; it is kept as its instruction and these parts rather than rendered.
\<close>

datatype prompt = Prompt string string "string list" string json

text \<open>
  What the routine cannot compute itself:
  \<^item> \<open>recall_api\<close>: the recording provider;
  \<^item> \<open>download\<close>: \<open>_download_transcript\<close>, the body on HTTP 200 and \<open>None\<close> on any
    other status or exception;
  \<^item> \<open>client_context\<close>: \<open>_get_client_context\<close> (client, sub-client, title), which
    catches every exception and always returns a string;
  \<^item> \<open>generate_content\<close>: the Content Generator (content type, prompt, client,
    sub-client, recipient), which catches every exception and returns a success
    dictionary with the content or a failure dictionary;
  \<^item> \<open>db_insert\<close>: whether the store accepts a row;
  \<^item> \<open>now\<close>: the clock.
\<close>

record env =
  recall_api :: provider
  download :: "json \<Rightarrow> string option"
  client_context :: "string \<Rightarrow> string option \<Rightarrow> string \<Rightarrow> string"
  generate_content :: "string \<Rightarrow> prompt \<Rightarrow> string \<Rightarrow> string option \<Rightarrow> string option \<Rightarrow> string result"
  db_insert :: "output_row \<Rightarrow> bool"
  now :: nat

definition update_meeting :: "string \<Rightarrow> (meeting \<Rightarrow> meeting) \<Rightarrow> world \<Rightarrow> world" where
  "update_meeting mid f w =
     w\<lparr>active_meetings := (case active_meetings w mid of
                              None \<Rightarrow> active_meetings w
                            | Some md \<Rightarrow> (active_meetings w)(mid \<mapsto> f md))\<rparr>"

subsection \<open>Monitor loop\<close>




subsection \<open>Transcript acquisition\<close>

text \<open>Iterating a value in a \<^verbatim>\<open>for\<close> loop: the elements of a list, the characters
  of a string, the keys of a dictionary; TypeError on the rest.\<close>

fun py_iter :: "json \<Rightarrow> json list option" where
  "py_iter (JList xs) = Some xs"
| "py_iter (JStr s) = Some (map (\<lambda>c. JStr [c]) s)"
| "py_iter (JDict kvs) = Some (map (\<lambda>kv. JStr (fst kv)) kvs)"
| "py_iter _ = None"

text \<open>\<^verbatim>\<open>x.get('text') or x.get('content')\<close>, returned when it is truthy.\<close>

definition text_or_content :: "json \<Rightarrow> json option option" where
  "text_or_content x = do {
     t \<leftarrow> dict_get x ''text'' JNull;
     c \<leftarrow> dict_get x ''content'' JNull;
     Some (if truthy (py_or t c) then Some (py_or t c) else None)
   }"

text \<open>
  The body of the \<^verbatim>\<open>for recording in recordings\<close> loop of
  \<open>_extract_transcript_from_bot_data\<close>. The outer \<open>None\<close> is an exception,
  \<open>Some None\<close> means that the loop goes to the next recording, and \<open>Some (Some t)\<close>
  is \<^verbatim>\<open>return t\<close>.
\<close>

definition recording_transcript :: "json \<Rightarrow> json option option" where
  "recording_transcript recording = do {
     transcript_data \<leftarrow> dict_get recording ''transcript'' JNull;
     embedded \<leftarrow>
       (if truthy transcript_data then
          (if is_str transcript_data then Some (Some transcript_data)
           else if is_dict transcript_data then text_or_content transcript_data
           else Some None)
        else Some None);
     case embedded of
       Some t \<Rightarrow> Some (Some t)
     | None \<Rightarrow> do {
         media_shortcuts \<leftarrow> dict_get recording ''media_shortcuts'' (JDict []);
         present \<leftarrow> py_contains ''transcript'' media_shortcuts;
         if present then do {
           transcript_info \<leftarrow> py_item media_shortcuts ''transcript'';
           if is_dict transcript_info then do {
             info_data \<leftarrow> dict_get transcript_info ''data'' (JDict []);
             text_or_content info_data
           } else Some None
         } else Some None
       }
   }"

fun scan_recordings :: "json list \<Rightarrow> json option option" where
  "scan_recordings [] = Some None"
| "scan_recordings (recording # rest) =
     (case recording_transcript recording of
        None \<Rightarrow> None
      | Some (Some t) \<Rightarrow> Some (Some t)
      | Some None \<Rightarrow> scan_recordings rest)"

text \<open>The whole function sits in \<^verbatim>\<open>try ... except Exception: return None\<close>.\<close>

definition extract_transcript_from_bot_data :: "json \<Rightarrow> json option" where
  "extract_transcript_from_bot_data data =
     (case do {
             recordings \<leftarrow> dict_get data ''recordings'' (JList []);
             items \<leftarrow> py_iter recordings;
             scan_recordings items
           } of
        None \<Rightarrow> None
      | Some found \<Rightarrow> found)"

text \<open>\<^verbatim>\<open>len(x)\<close> is defined for strings, lists and dictionaries and raises TypeError
  for the other values.\<close>

fun has_len :: "json \<Rightarrow> bool" where
  "has_len (JStr s) = True"
| "has_len (JList xs) = True"
| "has_len (JDict kvs) = True"
| "has_len _ = False"

text \<open>
  Lines 184 to 204 of \<open>_process_completed_meeting\<close>: the transcript text, or \<open>None\<close>
  where the routine ends. With a transcript URL the text is the downloaded body and
  an empty or failed download ends the routine; the job data is searched only when
  there is no URL. The log line after a successful search reads
  \<^verbatim>\<open>len(transcript_text)\<close>: for an embedded value without a length (a number, a
  boolean) it raises, and the handler of the routine (line 231) ends it there.
\<close>

definition acquire_transcript :: "env \<Rightarrow> download_info \<Rightarrow> json option" where
  "acquire_transcript e download_result =
     (if truthy (transcript_url download_result) then
        (case download e (transcript_url download_result) of
           None \<Rightarrow> None
         | Some body \<Rightarrow> if body \<noteq> [] then Some (JStr body) else None)
      else
        (case extract_transcript_from_bot_data (di_data download_result) of
           None \<Rightarrow> None
         | Some transcript_text \<Rightarrow>
             if has_len transcript_text then Some transcript_text else None))"

subsection \<open>Generation and persistence\<close>

text \<open>The three wrappers of ai\_service.py fix the content type; only the e-mail
  passes a recipient.\<close>

definition generate_summary :: "env \<Rightarrow> prompt \<Rightarrow> string \<Rightarrow> string option \<Rightarrow> string result" where
  "generate_summary e p c s = generate_content e ''summary'' p c s None"

definition generate_action_items :: "env \<Rightarrow> prompt \<Rightarrow> string \<Rightarrow> string option \<Rightarrow> string result" where
  "generate_action_items e p c s = generate_content e ''action_items'' p c s None"

definition generate_email ::
  "env \<Rightarrow> prompt \<Rightarrow> string \<Rightarrow> string option \<Rightarrow> string option \<Rightarrow> string result" where
  "generate_email e p c s recipient = generate_content e ''email'' p c s recipient"

text \<open>\<open>_generate_meeting_ai_content\<close>: the \<open>results\<close> dictionary in insertion order.
  The follow-up e-mail is generated under \<^verbatim>\<open>if attendees:\<close> only.\<close>

definition generate_meeting_ai_content ::
  "env \<Rightarrow> json \<Rightarrow> string \<Rightarrow> meeting \<Rightarrow> (kind \<times> string result) list" where
  "generate_meeting_ai_content e transcript_text context meeting_data =
     (let c = client_id meeting_data;
          s = sub_client_id meeting_data;
          full_context = (\<lambda>instruction.
             Prompt instruction (meeting_title meeting_data) (attendees meeting_data)
                    context transcript_text);
          summary_result = generate_summary e
             (full_context ''Create a comprehensive meeting summary based on this transcript and client context'') c s;
          action_items_result = generate_action_items e
             (full_context ''Extract and create detailed action items from this meeting, considering the client context'') c s
      in [(Summary, summary_result), (ActionItems, action_items_result)] @
         (if attendees meeting_data \<noteq> [] then
            [(FollowUpEmail, generate_email e
                (full_context ''Create a professional follow-up email for meeting attendees summarizing key points and next steps'')
                c s (Some (hd (attendees meeting_data))))]
          else []))"

fun output_title :: "kind \<Rightarrow> string \<Rightarrow> string" where
  "output_title Summary t = ''Meeting Summary - '' @ t"
| "output_title ActionItems t = ''Action Items - '' @ t"
| "output_title FollowUpEmail t = ''Follow-up Email - '' @ t"

fun output_prompt :: "kind \<Rightarrow> string \<Rightarrow> string" where
  "output_prompt Summary t = ''Create a comprehensive meeting summary for: '' @ t"
| "output_prompt ActionItems t = ''Extract action items from meeting: '' @ t"
| "output_prompt FollowUpEmail t = ''Generate follow-up email for meeting: '' @ t"

definition make_output :: "meeting \<Rightarrow> string \<Rightarrow> kind \<Rightarrow> string \<Rightarrow> nat \<Rightarrow> output_row" where
  "make_output meeting_data u k content t =
     \<lparr>out_title = output_title k (meeting_title meeting_data),
      out_content = content,
      out_type = kind_name k,
      out_prompt = output_prompt k (meeting_title meeting_data),
      out_client_id = client_id meeting_data,
      out_sub_client_id = sub_client_id meeting_data,
      out_user_id = u,
      out_meeting_id = meeting_id meeting_data,
      out_created_at = t\<rparr>"

text \<open>\<open>create_output\<close> catches every exception of the insert and returns \<^verbatim>\<open>None\<close>,
  so its caller never sees a rejection.\<close>

definition create_output :: "env \<Rightarrow> output_row \<Rightarrow> output_row list \<Rightarrow> output_row list" where
  "create_output e row table = (if db_insert e row then table @ [row] else table)"

text \<open>
  \<open>_store_meeting_results\<close>: the loop over \<open>ai_results.items()\<close>. Building the
  \<open>Output\<close> model validates it; \<open>user_id\<close> is a required string, so a session
  without a user raises there. That is outside the inner \<^verbatim>\<open>try\<close>, so the outer
  handler ends the loop. Since \<open>create_output\<close> does not raise, the direct-insert
  branch of the inner handler is never entered.
\<close>

fun store_meeting_results ::
  "env \<Rightarrow> meeting \<Rightarrow> (kind \<times> string result) list \<Rightarrow> output_row list \<Rightarrow> output_row list" where
  "store_meeting_results e meeting_data [] table = table"
| "store_meeting_results e meeting_data ((k, Failure err) # rest) table =
     store_meeting_results e meeting_data rest table"
| "store_meeting_results e meeting_data ((k, Success content) # rest) table =
     (case user_id meeting_data of
        None \<Rightarrow> table
      | Some u \<Rightarrow>
          store_meeting_results e meeting_data rest
            (create_output e (make_output meeting_data u k content (now e)) table))"

subsection \<open>Processing routine\<close>

definition process_completed_meeting :: "env \<Rightarrow> string \<Rightarrow> world \<Rightarrow> world" where
  "process_completed_meeting e mid w =
     (case active_meetings w mid of
        None \<Rightarrow> w
      | Some meeting_data \<Rightarrow>
          (case get_download_urls (recall_service w) (recall_api e) (Some (meeting_bot_id meeting_data)) of
             (Failure err, client) \<Rightarrow> w\<lparr>recall_service := client\<rparr>
           | (Success download_result, client) \<Rightarrow>
               (let w1 = w\<lparr>recall_service := client\<rparr> in
                case acquire_transcript e download_result of
                  None \<Rightarrow> w1
                | Some transcript_text \<Rightarrow>
                    (let context = client_context e (client_id meeting_data)
                                     (sub_client_id meeting_data) (meeting_title meeting_data);
                         ai_results = generate_meeting_ai_content e transcript_text context meeting_data;
                         w2 = w1\<lparr>outputs := store_meeting_results e meeting_data ai_results (outputs w1)\<rparr>
                     in update_meeting mid
                          (\<lambda>md. md\<lparr>processed := True, processed_at := Some (now e)\<rparr>) w2))))"

subsection \<open>Sample sessions and collaborators\<close>

text \<open>A provider that answers every request with the same job data.\<close>

definition always :: "json \<Rightarrow> provider" where
  "always j = (\<lambda>url. Some j)"

definition demo_meeting :: meeting where
  "demo_meeting = \<lparr>meeting_id = ''m1'', meeting_bot_id = ''b1'', meeting_url = ''https://meet'',
     client_id = ''c1'', sub_client_id = None, user_id = Some ''u1'', attendees = [''ann''],
     meeting_title = ''Kickoff'', status = JStr ''recording'', started_at = 0,
     processed = False, processed_at = None\<rparr>"

definition demo_world :: world where
  "demo_world = \<lparr>recall_service = demo_bot, active_meetings = [''m1'' \<mapsto> demo_meeting],
     processing_queue = [], tasks = [], outputs = []\<rparr>"


text \<open>A job whose first recording carries its transcript and no transcript URL.\<close>

definition embedded_job :: json where
  "embedded_job = JDict
     [(''status_changes'', JList [JDict [(''code'', JStr ''done'')]]),
      (''recordings'', JList [JDict [(''transcript'', JStr ''hello world'')]])]"

text \<open>A job whose embedded transcript object carries a number where the text belongs.\<close>

definition numeric_job :: json where
  "numeric_job = JDict
     [(''status_changes'', JList [JDict [(''code'', JStr ''done'')]]),
      (''recordings'', JList [JDict [(''transcript'', JDict [(''text'', JNum 5)])]])]"

text \<open>The job of the spec's Scenario C: a transcript URL (whose download fails in
  \<open>demo_env\<close>) and the transcript \<open>hello world\<close> embedded in the first recording.\<close>

definition scenario_c_job :: json where
  "scenario_c_job = JDict
     [(''status_changes'', JList [JDict [(''code'', JStr ''done'')]]),
      (''recordings'', JList [JDict
          [(''transcript'', JStr ''hello world''),
           (''media_shortcuts'', JDict
              [(''transcript'', JDict [(''data'', JDict [(''download_url'', JStr ''https://t'')])])])]])]"

text \<open>Collaborators for the examples: every transcript download fails, the store
  accepts every row, and \<open>gen\<close> decides each generation by its content type.\<close>

definition demo_env :: "json \<Rightarrow> (string \<Rightarrow> string result) \<Rightarrow> env" where
  "demo_env job gen = \<lparr>recall_api = always job, download = (\<lambda>url. None),
     client_context = (\<lambda>c s t. ''No specific client context found in knowledge base.''),
     generate_content = (\<lambda>ty p c s r. gen ty), db_insert = (\<lambda>row. True), now = 7\<rparr>"

definition all_succeed :: "string \<Rightarrow> string result" where
  "all_succeed ty = Success ty"

definition all_fail :: "string \<Rightarrow> string result" where
  "all_fail ty = Failure ''completion error''"


definition embedded_info :: download_info where
  "embedded_info = \<lparr>di_bot_id = ''b1'', video_url = JNull, audio_url = JNull, transcript_url = JNull,
      chat_messages_url = JNull, di_status = JStr ''done'', di_data = embedded_job\<rparr>"

definition instant_info :: download_info where
  "instant_info = \<lparr>di_bot_id = ''b1'', video_url = JNull, audio_url = JNull, transcript_url = JNull,
      chat_messages_url = JNull, di_status = JStr ''unknown'', di_data = instant_job\<rparr>"

subsection \<open>Observations on sessions\<close>






section \<open>Knowledge store\<close>

subsection \<open>Chunking (file\_processor.py)\<close>

text \<open>
  A Python string is a list of characters. \<open>is_space\<close> is \<^verbatim>\<open>str.isspace\<close> on the
  code points below 256: tab to carriage return, the four separators 28 to 31, the
  space, NEL (133) and the no-break space (160).
\<close>

definition is_space :: "char \<Rightarrow> bool" where
  "is_space c = (of_char c \<in> {9, 10, 11, 12, 13, 28, 29, 30, 31, 32, 133, 160 :: nat})"

text \<open>\<^verbatim>\<open>s.strip()\<close>: leading and trailing whitespace removed.\<close>

definition py_strip :: "string \<Rightarrow> string" where
  "py_strip s = rev (dropWhile is_space (rev (dropWhile is_space s)))"

text \<open>
  A slice bound of Python: a negative bound counts from the end, and the result is
  clamped to the string. \<open>py_slice s i j\<close> is \<^verbatim>\<open>s[i:j]\<close>; \<open>py_rfind c s i j\<close> is
  \<^verbatim>\<open>s.rfind(c, i, j)\<close>, the highest index of \<open>c\<close> inside the slice or \<open>-1\<close>.
\<close>

definition slice_index :: "int \<Rightarrow> nat \<Rightarrow> nat" where
  "slice_index i n = (if i < 0 then nat (max 0 (i + int n)) else min (nat i) n)"

definition py_slice :: "string \<Rightarrow> int \<Rightarrow> int \<Rightarrow> string" where
  "py_slice s i j =
     (let a = slice_index i (length s); b = slice_index j (length s)
      in take (b - a) (drop a s))"

definition py_rfind :: "char \<Rightarrow> string \<Rightarrow> int \<Rightarrow> int \<Rightarrow> int" where
  "py_rfind c s i j =
     (let a = slice_index i (length s); b = slice_index j (length s)
      in case filter (\<lambda>k. s ! k = c) (rev [a..<b]) of
           [] \<Rightarrow> - 1
         | k # ks \<Rightarrow> int k)"

text \<open>
  The end of the window that starts at \<open>start\<close> (lines 104 to 111 of
  \<open>chunk_text\<close>): \<open>start + chunk_size\<close>, moved back to just after the last full
  stop of the window's final 100 characters when the window ends inside the text.
\<close>

definition chunk_end :: "string \<Rightarrow> int \<Rightarrow> int \<Rightarrow> int" where
  "chunk_end text chunk_size start =
     (let end = start + chunk_size
      in if end < int (length text) then
           (let sentence_end = py_rfind CHR ''.'' text (start + chunk_size - 100) end
            in if sentence_end > start then sentence_end + 1 else end)
         else end)"

text \<open>
  The \<^verbatim>\<open>while start < len(text)\<close> loop. For some parameters it does not end (an
  overlap of at least the chunk size never advances), so the loop is a partial
  function: \<open>None\<close> stands for a run that never returns.
\<close>

partial_function (option) chunk_loop ::
  "string \<Rightarrow> int \<Rightarrow> int \<Rightarrow> int \<Rightarrow> string list \<Rightarrow> string list option" where
  "chunk_loop text chunk_size overlap start chunks =
     (if start < int (length text) then
        (let end = chunk_end text chunk_size start;
             chunk = py_strip (py_slice text start end);
             chunks' = (if chunk \<noteq> [] then chunks @ [chunk] else chunks);
             start' = end - overlap
         in if start' \<ge> int (length text) then Some chunks'
            else chunk_loop text chunk_size overlap start' chunks')
      else Some chunks)"

definition chunk_text :: "string \<Rightarrow> int \<Rightarrow> int \<Rightarrow> string list option" where
  "chunk_text text chunk_size overlap =
     (if text = [] \<or> int (length text) < chunk_size then Some (if text \<noteq> [] then [text] else [])
      else chunk_loop text chunk_size overlap 0 [])"

text \<open>A text of 1001 characters with no whitespace at either end: \<open>a\<close>, 999 spaces,
  \<open>b\<close>.\<close>

definition gap_text :: string where
  "gap_text = CHR ''a'' # replicate 999 (CHR '' '') @ [CHR ''b'']"

subsection \<open>Collections (vector\_store.py)\<close>

















section \<open>Verified properties\<close>

subsection \<open>Helper facts\<close>

lemma bind_eq_Some_D: "Option.bind m f = Some y \<Longrightarrow> \<exists>x. m = Some x \<and> f x = Some y"
  by (cases m) auto

lemma dict_get_Some:
  "dict_get x k d = Some v \<Longrightarrow>
     \<exists>kvs. x = JDict kvs \<and> v = (case map_of kvs k of None \<Rightarrow> d | Some v \<Rightarrow> v)"
  by (cases x) auto

subsection \<open>Recording job client\<close>

text \<open>
  C8. A successful status poll of a job returns the status that the provider's answer
  for that job determines: the code of the last entry of the job's status-change
  history; with an empty history, \<open>done\<close> when the job data holds at least one
  recording and \<open>waiting_to_join\<close> otherwise. The job is the one given to the call,
  or the client's current job when none is given, and the answer is the provider's
  at \<open>base_url/bot/job\<close>. The history and the recordings are the lists stored under
  \<open>status_changes\<close> and \<open>recordings\<close> (empty when the key is missing).
\<close>

theorem get_bot_status_last_code:
  assumes ok: "get_bot_status self http arg = Success r"
    and job: "(arg = Some b \<and> b \<noteq> []) \<or>
              ((arg = None \<or> arg = Some []) \<and> bot_id self = Some b \<and> b \<noteq> [])"
    and ans: "http (base_url self @ ''/bot/'' @ b) = Some (JDict kvs)"
    and h: "list_field kvs ''status_changes'' = Some history"
    and rs: "list_field kvs ''recordings'' = Some recordings"
  shows "si_status r = poll_status_spec history recordings
       \<and> si_bot_id r = b \<and> si_data r = JDict kvs \<and> si_status_changes r = JList history"
proof -
  from job have b: "resolve_bot_id arg self = Some b"
    by (auto simp: resolve_bot_id_def)
  from ok b ans obtain sc cs where
    sc: "dict_get (JDict kvs) ''status_changes'' (JList []) = Some sc"
    and cs: "(if truthy sc then do { newest \<leftarrow> py_last sc; dict_get newest ''code'' (JStr ''unknown'') }
              else do { recs \<leftarrow> dict_get (JDict kvs) ''recordings'' (JList []);
                        Some (if truthy recs then JStr ''done'' else JStr ''waiting_to_join'') }) = Some cs"
    and r: "r = \<lparr>si_bot_id = b, si_status = cs, si_status_changes = sc, si_data = JDict kvs\<rparr>"
    by (auto simp: get_bot_status_def bot_url_def split: option.splits dest!: bind_eq_Some_D)
  from sc h have sc_eq: "sc = JList history"
    by (auto simp: list_field_def split: option.splits json.splits)
  have "cs = poll_status_spec history recordings"
  proof (cases "history = []")
    case True
    with cs sc_eq rs show ?thesis
      by (auto simp: poll_status_spec_def list_field_def split: option.splits json.splits)
  next
    case False
    with cs sc_eq obtain newest where n: "newest = last history"
      and c: "dict_get newest ''code'' (JStr ''unknown'') = Some cs"
      by auto
    from c n obtain e where "last history = JDict e"
      "cs = (case map_of e ''code'' of None \<Rightarrow> JStr ''unknown'' | Some v \<Rightarrow> v)"
      by (auto dest: dict_get_Some)
    with False show ?thesis
      by (simp add: poll_status_spec_def entry_code_def)
  qed
  with r sc_eq show ?thesis by simp
qed

theorem get_bot_status_last_code_witness:
  "get_bot_status demo_bot (url_table [(''https://recall/bot/b1'', instant_job),
                                       (''https://recall/bot/b2'', joined_job)]) (Some ''b1'') =
     Success \<lparr>si_bot_id = ''b1'', si_status = JStr ''done'', si_status_changes = JList [],
              si_data = instant_job\<rparr>
   \<and> poll_status_spec [] [JDict []] = JStr ''done''
   \<and> get_bot_status demo_bot (url_table [(''https://recall/bot/b1'', instant_job),
                                         (''https://recall/bot/b2'', joined_job)]) (Some ''b2'') =
     Success \<lparr>si_bot_id = ''b2'', si_status = JStr ''in_call_recording'',
              si_status_changes = JList [JDict [(''code'', JStr ''joining_call'')],
                                         JDict [(''code'', JStr ''in_call_recording'')]],
              si_data = joined_job\<rparr>
   \<and> poll_status_spec [JDict [(''code'', JStr ''joining_call'')],
                         JDict [(''code'', JStr ''in_call_recording'')]] []
       = JStr ''in_call_recording''"
proof -
  let ?http = "url_table [(''https://recall/bot/b1'', instant_job),
                          (''https://recall/bot/b2'', joined_job)]"
  have run1: "get_bot_status demo_bot ?http (Some ''b1'') =
     Success \<lparr>si_bot_id = ''b1'', si_status = JStr ''done'', si_status_changes = JList [],
              si_data = instant_job\<rparr>"
    by (simp add: get_bot_status_def demo_bot_def instant_job_def resolve_bot_id_def
          bot_url_def url_table_def)
  have j1: "(Some ''b1'' = Some ''b1'' \<and> ''b1'' \<noteq> []) \<or>
            ((Some ''b1'' = None \<or> Some ''b1'' = Some []) \<and> bot_id demo_bot = Some ''b1'' \<and> ''b1'' \<noteq> [])"
    by simp
  have a1: "?http (base_url demo_bot @ ''/bot/'' @ ''b1'')
      = Some (JDict [(''status_changes'', JList []), (''recordings'', JList [JDict []])])"
    by (simp add: demo_bot_def url_table_def instant_job_def)
  have h1: "list_field [(''status_changes'', JList []), (''recordings'', JList [JDict []])]
             ''status_changes'' = Some []"
    by (simp add: list_field_def)
  have r1: "list_field [(''status_changes'', JList []), (''recordings'', JList [JDict []])]
              ''recordings'' = Some [JDict []]"
    by (simp add: list_field_def)
  have run2: "get_bot_status demo_bot ?http (Some ''b2'') =
     Success \<lparr>si_bot_id = ''b2'', si_status = JStr ''in_call_recording'',
              si_status_changes = JList [JDict [(''code'', JStr ''joining_call'')],
                                         JDict [(''code'', JStr ''in_call_recording'')]],
              si_data = joined_job\<rparr>"
    by (simp add: get_bot_status_def demo_bot_def joined_job_def resolve_bot_id_def
          bot_url_def url_table_def)
  have j2: "(Some ''b2'' = Some ''b2'' \<and> ''b2'' \<noteq> []) \<or>
            ((Some ''b2'' = None \<or> Some ''b2'' = Some []) \<and> bot_id demo_bot = Some ''b2'' \<and> ''b2'' \<noteq> [])"
    by simp
  have a2: "?http (base_url demo_bot @ ''/bot/'' @ ''b2'')
      = Some (JDict [(''status_changes'', JList [JDict [(''code'', JStr ''joining_call'')],
                                                 JDict [(''code'', JStr ''in_call_recording'')]]),
                     (''recordings'', JList [])])"
    by (simp add: demo_bot_def url_table_def joined_job_def)
  have h2: "list_field [(''status_changes'', JList [JDict [(''code'', JStr ''joining_call'')],
                                          JDict [(''code'', JStr ''in_call_recording'')]]),
              (''recordings'', JList [])] ''status_changes''
        = Some [JDict [(''code'', JStr ''joining_call'')], JDict [(''code'', JStr ''in_call_recording'')]]"
    by (simp add: list_field_def)
  have r2: "list_field [(''status_changes'', JList [JDict [(''code'', JStr ''joining_call'')],
                                          JDict [(''code'', JStr ''in_call_recording'')]]),
              (''recordings'', JList [])] ''recordings'' = Some []"
    by (simp add: list_field_def)
  from get_bot_status_last_code [OF run1 j1 a1 h1 r1] get_bot_status_last_code [OF run2 j2 a2 h2 r2]
    run1 run2
  show ?thesis by simp
qed

text \<open>
  C9. The raw-job-data cache is not keyed by the job identifier: after a fetch has
  returned (non-empty) job data, a later \<open>get_bot_data\<close> without \<open>force_refresh\<close>
  returns that same data for any identifier it is called with, whatever the provider
  would answer.
\<close>

theorem get_bot_data_cache_ignores_bot_id:
  assumes "get_bot_data self0 http0 arg0 force0 = (Success cached, self1)"
    and "truthy cached"
    and "arg \<noteq> None" and "arg \<noteq> Some []"
  shows "get_bot_data self1 http arg False = (Success cached, self1)"
proof -
  from assms(1) have "bot_data self1 = Some cached"
    by (auto simp: get_bot_data_def split: option.splits if_splits)
  moreover from assms(3,4) have "resolve_bot_id arg self1 = arg"
    by (auto simp: resolve_bot_id_def)
  ultimately show ?thesis using assms(2,3)
    by (auto simp: get_bot_data_def split: option.splits)
qed

theorem get_bot_data_cache_ignores_bot_id_witness:
  "get_bot_data demo_bot (\<lambda>u. Some instant_job) (Some ''b1'') False =
     (Success instant_job, demo_bot\<lparr>bot_data := Some instant_job\<rparr>)
   \<and> truthy instant_job
   \<and> get_bot_data (demo_bot\<lparr>bot_data := Some instant_job\<rparr>) (\<lambda>u. None) (Some ''b2'') False =
     (Success instant_job, demo_bot\<lparr>bot_data := Some instant_job\<rparr>)"
proof -
  have first: "get_bot_data demo_bot (\<lambda>u. Some instant_job) (Some ''b1'') False =
     (Success instant_job, demo_bot\<lparr>bot_data := Some instant_job\<rparr>)"
    by (simp add: get_bot_data_def demo_bot_def resolve_bot_id_def)
  have t: "truthy instant_job" by (simp add: instant_job_def)
  have a: "Some ''b2'' \<noteq> (None :: string option)" "Some ''b2'' \<noteq> Some []" by simp_all
  from get_bot_data_cache_ignores_bot_id [OF first t a, of "\<lambda>u. None"] first t
  show ?thesis by simp
qed

text \<open>
  C10. Whenever \<open>get_download_urls\<close> succeeds, the audio URL it returns is the video
  URL, and the chat-messages URL is absent (\<open>None\<close>).
\<close>

theorem get_download_urls_audio_is_video:
  assumes "get_download_urls self http arg = (Success r, self')"
  shows "audio_url r = video_url r \<and> chat_messages_url r = JNull"
  using assms
  by (auto simp: get_download_urls_def
           split: option.splits prod.splits result.splits dest!: bind_eq_Some_D)

theorem get_download_urls_audio_is_video_witness:
  "get_download_urls demo_bot (\<lambda>u. Some recorded_job) (Some ''b1'') =
     (Success \<lparr>di_bot_id = ''b1'', video_url = JStr ''https://v'', audio_url = JStr ''https://v'',
               transcript_url = JStr ''https://t'', chat_messages_url = JNull,
               di_status = JStr ''done'', di_data = recorded_job\<rparr>,
      demo_bot\<lparr>bot_data := Some recorded_job\<rparr>)
   \<and> audio_url \<lparr>di_bot_id = ''b1'', video_url = JStr ''https://v'', audio_url = JStr ''https://v'',
               transcript_url = JStr ''https://t'', chat_messages_url = JNull,
               di_status = JStr ''done'', di_data = recorded_job\<rparr> = JStr ''https://v''"
proof -
  have run: "get_download_urls demo_bot (\<lambda>u. Some recorded_job) (Some ''b1'') =
     (Success \<lparr>di_bot_id = ''b1'', video_url = JStr ''https://v'', audio_url = JStr ''https://v'',
               transcript_url = JStr ''https://t'', chat_messages_url = JNull,
               di_status = JStr ''done'', di_data = recorded_job\<rparr>,
      demo_bot\<lparr>bot_data := Some recorded_job\<rparr>)"
    by (simp add: get_download_urls_def get_bot_data_def demo_bot_def resolve_bot_id_def
          recorded_job_def extract_download_urls_def shortcut_download_url_def)
  from get_download_urls_audio_is_video [OF run] run show ?thesis by simp
qed

subsection \<open>Monitor loop\<close>















subsection \<open>Processing routine\<close>

lemmas demo_defs = demo_env_def always_def demo_world_def demo_meeting_def demo_bot_def
  get_download_urls_def get_bot_data_def resolve_bot_id_def extract_download_urls_def
  shortcut_download_url_def acquire_transcript_def extract_transcript_from_bot_data_def
  recording_transcript_def text_or_content_def py_or_def

lemma embedded_urls:
  "get_download_urls (recall_service demo_world) (recall_api (demo_env embedded_job g))
      (Some (meeting_bot_id demo_meeting)) = (Success embedded_info, demo_bot\<lparr>bot_data := Some embedded_job\<rparr>)"
  by (simp add: demo_defs embedded_job_def embedded_info_def)

lemma embedded_acquired:
  "acquire_transcript (demo_env embedded_job g) embedded_info = Some (JStr ''hello world'')"
  by (simp add: demo_defs embedded_job_def embedded_info_def)

lemma instant_urls:
  "get_download_urls (recall_service demo_world) (recall_api (demo_env instant_job g))
      (Some (meeting_bot_id demo_meeting)) = (Success instant_info, demo_bot\<lparr>bot_data := Some instant_job\<rparr>)"
  by (simp add: demo_defs instant_job_def instant_info_def)

lemma instant_not_acquired:
  "acquire_transcript (demo_env instant_job g) instant_info = None"
  by (simp add: demo_defs instant_job_def instant_info_def)

text \<open>An embedded transcript without a length ends the routine at the log line: the
  scan returns the number, and the session stays unprocessed with nothing stored.\<close>

lemma numeric_transcript_ends_routine:
  "extract_transcript_from_bot_data numeric_job = Some (JNum 5)
   \<and> process_completed_meeting (demo_env numeric_job all_succeed) ''m1'' demo_world
       = demo_world\<lparr>recall_service := demo_bot\<lparr>bot_data := Some numeric_job\<rparr>\<rparr>"
  by (simp add: process_completed_meeting_def demo_defs numeric_job_def)

text \<open>
  C2. The fallback path, the scan of the raw job data for an embedded transcript, is
  to be used whenever the primary path is unusable, also when the download of the
  transcript URL fails. In \<open>_process_completed_meeting\<close> a failed download returns
  at once instead: in Scenario C the routine ends with the session unprocessed and
  nothing stored, although the raw job data holds the transcript \<open>hello world\<close>,
  which the scan returns.
\<close>

theorem failed_download_skips_fallback:
  "process_completed_meeting (demo_env scenario_c_job all_succeed) ''m1'' demo_world
     = demo_world\<lparr>recall_service := demo_bot\<lparr>bot_data := Some scenario_c_job\<rparr>\<rparr>
   \<and> extract_transcript_from_bot_data scenario_c_job = Some (JStr ''hello world'')"
  by (simp add: process_completed_meeting_def demo_defs scenario_c_job_def)







text \<open>
  C4. If transcript acquisition fails, the routine stops there: no session changes (so
  \<open>processed\<close> stays false) and no row is added to the store. \<open>acquire_transcript\<close>
  is \<open>None\<close> in particular when neither the download nor the scan of the raw job
  data yields text.
\<close>

theorem no_transcript_no_processing:
  assumes "active_meetings w mid = Some md"
    and "get_download_urls (recall_service w) (recall_api e) (Some (meeting_bot_id md)) = (Success dl, client)"
    and "acquire_transcript e dl = None"
  shows "active_meetings (process_completed_meeting e mid w) = active_meetings w
       \<and> outputs (process_completed_meeting e mid w) = outputs w"
  using assms by (simp add: process_completed_meeting_def)

theorem no_transcript_no_processing_witness:
  "active_meetings demo_world ''m1'' = Some demo_meeting
   \<and> acquire_transcript (demo_env instant_job all_succeed) instant_info = None
   \<and> active_meetings (process_completed_meeting (demo_env instant_job all_succeed) ''m1'' demo_world)
       = active_meetings demo_world
   \<and> outputs (process_completed_meeting (demo_env instant_job all_succeed) ''m1'' demo_world) = []"
proof -
  have reg: "active_meetings demo_world ''m1'' = Some demo_meeting"
    by (simp add: demo_world_def)
  have out: "outputs demo_world = []" by (simp add: demo_world_def)
  from no_transcript_no_processing [OF reg instant_urls instant_not_acquired] reg out
    instant_not_acquired [of all_succeed]
  show ?thesis by simp
qed

text \<open>
  C5. Once the transcript is acquired, the routine ends with the session marked
  \<open>processed\<close> and \<open>processed_at\<close> set, for every outcome of the three generations
  and of the store.
\<close>

theorem processed_after_attempt:
  assumes "active_meetings w mid = Some md"
    and "get_download_urls (recall_service w) (recall_api e) (Some (meeting_bot_id md)) = (Success dl, client)"
    and "acquire_transcript e dl = Some t"
  shows "\<exists>md'. active_meetings (process_completed_meeting e mid w) mid = Some md'
       \<and> processed md' \<and> processed_at md' = Some (now e)"
  using assms by (simp add: process_completed_meeting_def update_meeting_def Let_def)

theorem processed_after_attempt_witness:
  "active_meetings demo_world ''m1'' = Some demo_meeting
   \<and> acquire_transcript (demo_env embedded_job all_fail) embedded_info = Some (JStr ''hello world'')
   \<and> outputs (process_completed_meeting (demo_env embedded_job all_fail) ''m1'' demo_world) = []
   \<and> map_option processed
        (active_meetings (process_completed_meeting (demo_env embedded_job all_fail) ''m1'' demo_world) ''m1'')
       = Some True"
proof -
  have reg: "active_meetings demo_world ''m1'' = Some demo_meeting"
    by (simp add: demo_world_def)
  have none: "outputs (process_completed_meeting (demo_env embedded_job all_fail) ''m1'' demo_world) = []"
    by (simp add: process_completed_meeting_def demo_defs embedded_job_def update_meeting_def
          generate_meeting_ai_content_def generate_summary_def generate_action_items_def
          generate_email_def all_fail_def)
  from processed_after_attempt [OF reg embedded_urls embedded_acquired] reg none
    embedded_acquired [of all_fail]
  show ?thesis by auto
qed

subsection \<open>Chunking\<close>

lemma filter_dropWhile_not: "filter (\<lambda>c. \<not> P c) (dropWhile P s) = filter (\<lambda>c. \<not> P c) s"
  by (induction s) auto

lemma nonspace_strip: "filter (\<lambda>c. \<not> is_space c) (py_strip s) = filter (\<lambda>c. \<not> is_space c) s"
  by (simp add: py_strip_def rev_filter [symmetric] filter_dropWhile_not)

lemma length_strip_ge: "length (filter (\<lambda>c. \<not> is_space c) s) \<le> length (py_strip s)"
proof -
  have "length (filter (\<lambda>c. \<not> is_space c) (py_strip s)) \<le> length (py_strip s)"
    by (rule length_filter_le)
  then show ?thesis by (simp add: nonspace_strip)
qed

lemma py_rfind_range:
  "py_rfind c s i j = - 1 \<or>
     (int (slice_index i (length s)) \<le> py_rfind c s i j \<and> py_rfind c s i j < int (slice_index j (length s)))"
proof (cases "filter (\<lambda>k. s ! k = c) (rev [slice_index i (length s)..<slice_index j (length s)])")
  case Nil
  then show ?thesis by (simp add: py_rfind_def)
next
  case (Cons k ks)
  then have "k \<in> set (filter (\<lambda>k. s ! k = c) (rev [slice_index i (length s)..<slice_index j (length s)]))"
    by simp
  then have "slice_index i (length s) \<le> k \<and> k < slice_index j (length s)" by auto
  with Cons show ?thesis by (simp add: py_rfind_def)
qed

lemma chunk_end_bounds:
  assumes "0 \<le> start"
  shows "start + 901 \<le> chunk_end text 1000 start \<and> chunk_end text 1000 start \<le> start + 1000
       \<and> (\<not> start + 1000 < int (length text) \<longrightarrow> chunk_end text 1000 start = start + 1000)"
proof (cases "start + 1000 < int (length text)")
  case False
  then show ?thesis by (simp add: chunk_end_def)
next
  case True
  let ?k = "py_rfind CHR ''.'' text (start + 1000 - 100) (start + 1000)"
  from assms True have lo: "slice_index (start + 1000 - 100) (length text) = nat (start + 900)"
    by (auto simp: slice_index_def)
  from assms True have hi: "slice_index (start + 1000) (length text) = nat (start + 1000)"
    by (auto simp: slice_index_def)
  from py_rfind_range [of "CHR ''.''" "text" "start + 1000 - 100" "start + 1000"] lo hi assms
  have "?k = - 1 \<or> (start + 900 \<le> ?k \<and> ?k < start + 1000)" by auto
  with assms True show ?thesis by (auto simp: chunk_end_def Let_def)
qed

lemma py_slice_from:
  assumes "0 \<le> start" "start < int (length text)" "start \<le> e"
  shows "py_slice text start e = take (nat e - nat start) (drop (nat start) text)"
  using assms by (auto simp: py_slice_def slice_index_def Let_def min_def)

lemma nonspace_drop_mono:
  "a \<le> b \<Longrightarrow> length (filter P (drop b xs)) \<le> length (filter P (drop a xs))"
proof -
  assume "a \<le> b"
  then have "drop b xs = drop (b - a) (drop a xs)" by simp
  moreover have "length (filter P (drop (b - a) (drop a xs))) \<le> length (filter P (drop a xs))"
    by (metis append_take_drop_id filter_append length_append le_add2)
  ultimately show ?thesis by simp
qed

lemma nonspace_window:
  "length (filter P (drop a xs)) =
     length (filter P (take m (drop a xs))) + length (filter P (drop (a + m) xs))"
proof -
  have "filter P (drop a xs) = filter P (take m (drop a xs) @ drop m (drop a xs))"
    by (simp only: append_take_drop_id)
  then show ?thesis by (simp add: add.commute)
qed

lemma chunk_loop_nonspace:
  "0 \<le> start \<Longrightarrow>
     \<exists>res. chunk_loop text 1000 200 start acc = Some res \<and>
       sum_list (map length acc) + length (filter (\<lambda>c. \<not> is_space c) (drop (nat start) text))
         \<le> sum_list (map length res)"
proof (induction "length text - nat start" arbitrary: start acc rule: less_induct)
  case less
  show ?case
  proof (cases "start < int (length text)")
    case False
    then have "chunk_loop text 1000 200 start acc = Some acc"
      by (subst chunk_loop.simps) simp
    moreover from False less.prems have "drop (nat start) text = []" by simp
    ultimately show ?thesis by simp
  next
    case True
    define e where "e = chunk_end text 1000 start"
    define chunk where "chunk = py_strip (py_slice text start e)"
    define acc' where "acc' = (if chunk \<noteq> [] then acc @ [chunk] else acc)"
    from chunk_end_bounds [OF less.prems, of "text"]
    have lo: "start + 901 \<le> e" and hi: "e \<le> start + 1000"
      and full: "\<not> start + 1000 < int (length text) \<longrightarrow> e = start + 1000"
      by (simp_all add: e_def)
    have unfold: "chunk_loop text 1000 200 start acc =
        (if e - 200 \<ge> int (length text) then Some acc' else chunk_loop text 1000 200 (e - 200) acc')"
      using True by (subst chunk_loop.simps) (simp add: Let_def e_def chunk_def acc'_def)
    from less.prems True lo have win: "py_slice text start e = take (nat e - nat start) (drop (nat start) text)"
      by (intro py_slice_from) auto
    have chunk_len: "length (filter (\<lambda>c. \<not> is_space c) (take (nat e - nat start) (drop (nat start) text)))
         \<le> length chunk"
      unfolding chunk_def win by (rule length_strip_ge)
    have acc'_sum: "sum_list (map length acc') = sum_list (map length acc) + length chunk"
      by (simp add: acc'_def)
    have split: "length (filter (\<lambda>c. \<not> is_space c) (drop (nat start) text)) =
        length (filter (\<lambda>c. \<not> is_space c) (take (nat e - nat start) (drop (nat start) text)))
        + length (filter (\<lambda>c. \<not> is_space c) (drop (nat e) text))"
      using nonspace_window [of "\<lambda>c. \<not> is_space c" "nat start" "text" "nat e - nat start"] less.prems lo
      by (simp add: nat_le_eq_zle)
    show ?thesis
    proof (cases "e - 200 \<ge> int (length text)")
      case True
      then have "drop (nat e) text = []" by simp
      with unfold True split chunk_len acc'_sum show ?thesis by simp
    next
      case False
      have pos: "0 \<le> e - 200" using less.prems lo by simp
      have dec: "length text - nat (e - 200) < length text - nat start"
        using less.prems lo False by linarith
      from less.hyps [OF dec pos, of acc'] obtain res where
        res: "chunk_loop text 1000 200 (e - 200) acc' = Some res"
        and le: "sum_list (map length acc') + length (filter (\<lambda>c. \<not> is_space c) (drop (nat (e - 200)) text))
           \<le> sum_list (map length res)"
        by blast
      have "length (filter (\<lambda>c. \<not> is_space c) (drop (nat e) text))
           \<le> length (filter (\<lambda>c. \<not> is_space c) (drop (nat (e - 200)) text))"
        by (rule nonspace_drop_mono) simp
      with unfold False res le split chunk_len acc'_sum show ?thesis by simp
    qed
  qed
qed

text \<open>
  C6 (as amended). For every input text, the chunking function with 1000-character
  windows and 200-character overlap returns, and the total character count of its
  chunks is at least the number of non-whitespace characters of the text: the overlap
  only adds characters, and stripping a window removes whitespace only.
\<close>

theorem chunk_text_keeps_nonspace:
  "\<exists>chunks. chunk_text text 1000 200 = Some chunks \<and>
     length (filter (\<lambda>c. \<not> is_space c) text) \<le> sum_list (map length chunks)"
proof (cases "text = [] \<or> int (length text) < 1000")
  case True
  then show ?thesis by (auto simp: chunk_text_def intro: length_filter_le)
next
  case False
  with chunk_loop_nonspace [of 0 "text" "[]"] show ?thesis
    by (simp add: chunk_text_def)
qed

lemma slice_index_le: "slice_index i n \<le> n"
  by (auto simp: slice_index_def)

lemma py_rfind_absent: "c \<notin> set s \<Longrightarrow> py_rfind c s i j = - 1"
proof -
  assume a: "c \<notin> set s"
  have "filter (\<lambda>k. s ! k = c) (rev [slice_index i (length s)..<slice_index j (length s)]) = []"
  proof (rule filter_False, safe)
    fix k assume "k \<in> set (rev [slice_index i (length s)..<slice_index j (length s)])" "c = s ! k"
    then have "k < length s" using slice_index_le [of j "length s"] by auto
    with a \<open>c = s ! k\<close> show False by auto
  qed
  then show ?thesis by (simp add: py_rfind_def)
qed

lemma strip_head: "py_strip (CHR ''a'' # replicate n (CHR '' '')) = ''a''"
  by (simp add: py_strip_def is_space_def dropWhile_append)

lemma strip_tail: "py_strip (replicate n (CHR '' '') @ ''b'') = ''b''"
  by (simp add: py_strip_def is_space_def dropWhile_append)

lemma gap_len: "length gap_text = 1001" by (simp add: gap_text_def)

lemma gap_no_dot: "CHR ''.'' \<notin> set gap_text" by (simp add: gap_text_def)

lemma gap_end0: "chunk_end gap_text 1000 0 = 1000"
  by (simp add: chunk_end_def gap_len py_rfind_absent [OF gap_no_dot])

lemma gap_end1: "chunk_end gap_text 1000 800 = 1800"
  by (simp add: chunk_end_def gap_len)

lemma gap_slice0: "py_slice gap_text 0 1000 = CHR ''a'' # replicate 999 (CHR '' '')"
  by (simp add: py_slice_def slice_index_def gap_text_def)

lemma gap_slice1: "py_slice gap_text 800 1800 = replicate 200 (CHR '' '') @ ''b''"
  by (simp add: py_slice_def slice_index_def gap_text_def drop_Cons')

text \<open>The claim as written fails: the whitespace stripped from the windows is lost, so
  the chunks of a 1001-character text can total two characters.\<close>

theorem chunk_text_drops_characters:
  "chunk_text gap_text 1000 200 = Some [''a'', ''b'']
   \<and> sum_list (map length [''a'', ''b'']) < length gap_text"
proof -
  have "chunk_loop gap_text 1000 200 800 [''a''] = Some [''a'', ''b'']"
    by (subst chunk_loop.simps) (simp add: gap_len gap_end1 gap_slice1 strip_tail)
  then have "chunk_loop gap_text 1000 200 0 [] = Some [''a'', ''b'']"
    by (subst chunk_loop.simps) (simp add: gap_len gap_end0 gap_slice0 strip_head)
  moreover have "gap_text \<noteq> []" by (simp add: gap_text_def)
  ultimately show ?thesis by (simp add: chunk_text_def gap_len)
qed

subsection \<open>Collections\<close>



lemma underscore_end:
  assumes "CHR ''_'' \<notin> set a" "a = b @ CHR ''_'' # y"
  shows False
  using assms by auto












end
